theory Spec2Isabelle
  imports Complex_Main
begin

section \<open>Data model\<close>

text \<open>
  The repository holds two variants of the component \<open>RealTimeMap\<close>, the module
  \<open>reverseGeocodeApi\<close> with \<open>fetchAddress\<close>, and the axios instance. A JavaScript
  \<open>number\<close> that holds a coordinate is a \<open>real\<close>: the code only copies coordinates and
  tests them for truthiness, and the one falsy coordinate a position fix can hold is \<open>0\<close>.
  \<open>null\<close> and \<open>undefined\<close> are \<open>None\<close>.
\<close>

record coordinates =
  latitude :: real
  longitude :: real

text \<open>
  \<open>interface Location\<close> of the event-forwarding variant. At run time \<open>reverseData\<close> is
  whatever \<open>fetchAddress\<close> returned, and \<open>JSON.stringify\<close> returns \<open>undefined\<close>
  for a response without an \<open>address\<close> field: hence the option.
\<close>

record Location = coordinates +
  timestamp :: "string option"
  reverseData :: "string option"

record GeolocationPosition =
  coords :: "coordinates option"

record GeolocationPositionError =
  code :: int
  message :: string

text \<open>The object returned by \<open>getDeviceData\<close>.\<close>

record deviceData =
  deviceId :: string
  deviceName :: string
  os :: string

datatype event_type = START | ONGOING | FINISH

text \<open>
  The \<open>data\<close> object of a payload spreads the device data and adds four fields; the
  fields that share a name with \<open>Location\<close> carry the prefix \<open>data_\<close>.
\<close>

record payload_data = deviceData +
  eventType :: event_type
  data_latitude :: "real option"
  data_longitude :: "real option"
  data_reverseData :: string

record payload =
  event :: string
  data :: payload_data

datatype error = NetworkError | Timeout | BadStatus nat | TypeError | DeviceInfoError

datatype log_entry =
    SendingPayload payload
  | WebSocketNotOpen
  | ErrorFetchingAddress error
  | ErrorFetchingInitialLocation GeolocationPositionError
  | InvalidPositionData
  | ErrorProcessingPositionData error
  | LocationTrackingError GeolocationPositionError
  | ErrorInStartTracking error
  | TrackingNotActive
  | TrackingStopped Location
  | ErrorStoppingTracking error
  | WebSocketConnected
  | WebSocketDisconnected

datatype readyState = CONNECTING | OPEN | CLOSING | CLOSED

subsection \<open>The reverse-geocoding request\<close>

datatype http_method = GET | POST

datatype param = Str string | Num real

record axios_instance =
  baseURL :: string
  timeout :: nat

record request =
  client :: axios_instance
  http_verb :: http_method
  url :: string
  params :: "(string \<times> param) list"

text \<open>
  What the promise of \<open>reverseGeocodeApi.get\<close> settles to: it rejects, or it resolves
  to a response whose \<open>data\<close> is \<open>null\<close>/\<open>undefined\<close> (\<open>NoData\<close>) or a value
  whose \<open>address\<close> property is read (\<open>Data None\<close> when the property is absent).
\<close>

datatype 'a body = NoData | Data "'a option"

datatype 'a outcome = Rejected error | Resolved "'a body"

subsection \<open>The session of the event-forwarding variant\<close>

text \<open>
  A callback that is suspended at \<open>await fetchAddress(...)\<close>, with the variables its
  continuation closes over.
\<close>

datatype task =
    StartLookup deviceData real real
  | WatchLookup deviceData real real

text \<open>
  \<open>tracking\<close> and \<open>locations\<close> are the component's state, \<open>ws\<close> and \<open>watchId\<close>
  its refs (\<open>ws\<close> holds the socket's \<open>readyState\<close>). The other fields are the
  platform as the component sees it: the frames handed to \<open>ws.send\<close>, the console, the
  alerts shown, the active position subscriptions with the device data their callbacks
  close over, the next subscription id, the one-shot position reads not yet answered, the
  HTTP requests issued, and the callbacks suspended at an address lookup.
\<close>

record session =
  tracking :: bool
  locations :: "Location list"
  ws :: "readyState option"
  watchId :: "nat option"
  frames :: "payload list"
  console :: "log_entry list"
  alerts :: "(string \<times> string) list"
  watchers :: "(nat \<times> deviceData) list"
  nextId :: nat
  reads :: "deviceData list"
  requests :: "request list"
  awaiting :: "task list"

definition log :: "log_entry \<Rightarrow> session \<Rightarrow> session" where
  "log e s = s\<lparr>console := console s @ [e]\<rparr>"

text \<open>
  The events emitted so far are the payloads that \<open>sendLocationEvent\<close> built, which it
  logs with \<open>console.log('Sending payload:', payload)\<close> on every call; the frames are
  the ones that reached \<open>ws.send\<close>.
\<close>

fun payloads :: "log_entry list \<Rightarrow> payload list" where
  "payloads [] = []"
| "payloads (SendingPayload p # es) = p # payloads es"
| "payloads (_ # es) = payloads es"

definition emitted :: "session \<Rightarrow> payload list" where
  "emitted s = payloads (console s)"

section \<open>Event Forwarder: \<open>sendLocationEvent\<close>\<close>

text \<open>\<open>x || null\<close> on a number and \<open>x || 'Unknown'\<close> on a string.\<close>

definition number_or_null :: "real option \<Rightarrow> real option" where
  "number_or_null x = (case x of None \<Rightarrow> None | Some n \<Rightarrow> if n = 0 then None else Some n)"

definition string_or_Unknown :: "string option \<Rightarrow> string" where
  "string_or_Unknown x =
     (case x of None \<Rightarrow> ''Unknown'' | Some r \<Rightarrow> if r = [] then ''Unknown'' else r)"

definition make_payload :: "event_type \<Rightarrow> deviceData \<Rightarrow> Location option \<Rightarrow> payload" where
  "make_payload t d location =
     \<lparr>event = ''locationUpdate'',
      data = \<lparr>deviceId = deviceId d, deviceName = deviceName d, os = os d,
              eventType = t,
              data_latitude = number_or_null (map_option latitude location),
              data_longitude = number_or_null (map_option longitude location),
              data_reverseData = string_or_Unknown (Option.bind location reverseData)\<rparr>\<rparr>"

definition sendLocationEvent ::
  "event_type \<Rightarrow> deviceData \<Rightarrow> Location option \<Rightarrow> session \<Rightarrow> session" where
  "sendLocationEvent t d location s =
     (let p = make_payload t d location;
          s1 = log (SendingPayload p) s
      in if ws s1 = Some OPEN then s1\<lparr>frames := frames s1 @ [p]\<rparr>
         else log WebSocketNotOpen s1)"

section \<open>Address Resolver: \<open>fetchAddress\<close>\<close>

definition reverseGeocodeApi :: axios_instance where
  "reverseGeocodeApi = \<lparr>baseURL = ''https://nominatim.openstreetmap.org'', timeout = 10000\<rparr>"

text \<open>The call \<open>reverseGeocodeApi.get('/reverse', {params: ...})\<close>, up to the await.\<close>

definition fetchAddress_request :: "real \<Rightarrow> real \<Rightarrow> request" where
  "fetchAddress_request lat lon =
     \<lparr>client = reverseGeocodeApi, http_verb = GET, url = ''/reverse'',
      params = [(''format'', Str ''jsonv2''), (''lat'', Num lat), (''lon'', Num lon)]\<rparr>"

definition fetchAddress_call :: "real \<Rightarrow> real \<Rightarrow> session \<Rightarrow> session" where
  "fetchAddress_call lat lon s = s\<lparr>requests := requests s @ [fetchAddress_request lat lon]\<rparr>"

text \<open>
  The rest of \<open>fetchAddress\<close>, from the moment the promise settles. \<open>stringify\<close> is
  \<open>JSON.stringify\<close> on the address value of the response. Reading \<open>.address\<close> of a
  missing \<open>data\<close> throws a TypeError inside the \<open>try\<close>; the \<open>catch\<close> logs and rethrows.
\<close>

definition fetchAddress_settle ::
  "('a \<Rightarrow> string) \<Rightarrow> 'a outcome \<Rightarrow> session \<Rightarrow> (error + string option) \<times> session" where
  "fetchAddress_settle stringify r s =
     (case r of
        Rejected e \<Rightarrow> (Inl e, log (ErrorFetchingAddress e) s)
      | Resolved NoData \<Rightarrow> (Inl TypeError, log (ErrorFetchingAddress TypeError) s)
      | Resolved (Data address) \<Rightarrow> (Inr (map_option stringify address), s))"

definition fetchAddress ::
  "('a \<Rightarrow> string) \<Rightarrow> real \<Rightarrow> real \<Rightarrow> 'a outcome \<Rightarrow> session \<Rightarrow> (error + string option) \<times> session" where
  "fetchAddress stringify lat lon r s = fetchAddress_settle stringify r (fetchAddress_call lat lon s)"

section \<open>Session Controller\<close>

text \<open>
  A handler or callback of the source is modelled as a function on the session. An
  \<open>async\<close> callback whose only await is the address lookup is split at that await:
  the first half issues the request and suspends the callback as a \<open>task\<close>, the second
  half runs when the lookup settles. \<open>startTracking\<close> and \<open>stopTracking\<close> take the
  values their awaits settle to as arguments. React state setters are taken to act at
  once, so that a handler reads the state as the last setter left it.
\<close>

definition clearWatch :: "nat \<Rightarrow> session \<Rightarrow> session" where
  "clearWatch w s = s\<lparr>watchers := filter (\<lambda>(i, d). i \<noteq> w) (watchers s)\<rparr>"

text \<open>The object literal \<open>{latitude, longitude, reverseData}\<close>: no \<open>timestamp\<close>.\<close>

definition location_object :: "real \<Rightarrow> real \<Rightarrow> string option \<Rightarrow> Location" where
  "location_object lat lon rd =
     \<lparr>latitude = lat, longitude = lon, timestamp = None, reverseData = rd\<rparr>"

text \<open>
  The success callback of \<open>Geolocation.getCurrentPosition\<close>: no check, no \<open>try\<close>.
  Destructuring the coordinates of a position without \<open>coords\<close> throws, and the promise
  of the callback rejects with nobody listening. Neither does anybody listen when the
  lookup fails.
\<close>

definition currentPosition_success ::
  "deviceData \<Rightarrow> GeolocationPosition option \<Rightarrow> session \<Rightarrow> session" where
  "currentPosition_success d position s =
     (case Option.bind position coords of
        None \<Rightarrow> s
      | Some c \<Rightarrow>
          (let s1 = fetchAddress_call (latitude c) (longitude c) s
           in s1\<lparr>awaiting := awaiting s1 @ [StartLookup d (latitude c) (longitude c)]\<rparr>))"

definition currentPosition_resume ::
  "('a \<Rightarrow> string) \<Rightarrow> deviceData \<Rightarrow> real \<Rightarrow> real \<Rightarrow> 'a outcome \<Rightarrow> session \<Rightarrow> session" where
  "currentPosition_resume stringify d lat lon r s =
     (case fetchAddress_settle stringify r s of
        (Inl e, s1) \<Rightarrow> s1
      | (Inr rd, s1) \<Rightarrow>
          sendLocationEvent START d (Some (location_object lat lon rd)) s1)"

text \<open>The error callback of \<open>Geolocation.getCurrentPosition\<close>.\<close>

definition currentPosition_error ::
  "deviceData \<Rightarrow> GeolocationPositionError \<Rightarrow> session \<Rightarrow> session" where
  "currentPosition_error d err s =
     sendLocationEvent START d (Some (location_object 0 0 (Some ''Unknown'')))
       (log (ErrorFetchingInitialLocation err) s)"

text \<open>The success callback of \<open>Geolocation.watchPosition\<close>, with its \<open>try\<close>/\<open>catch\<close>.\<close>

definition watchPosition_success ::
  "deviceData \<Rightarrow> GeolocationPosition option \<Rightarrow> session \<Rightarrow> session" where
  "watchPosition_success d position s =
     (case Option.bind position coords of
        None \<Rightarrow> log InvalidPositionData s
      | Some c \<Rightarrow>
          (let s1 = fetchAddress_call (latitude c) (longitude c) s
           in s1\<lparr>awaiting := awaiting s1 @ [WatchLookup d (latitude c) (longitude c)]\<rparr>))"

definition watchPosition_resume ::
  "('a \<Rightarrow> string) \<Rightarrow> deviceData \<Rightarrow> real \<Rightarrow> real \<Rightarrow> 'a outcome \<Rightarrow> session \<Rightarrow> session" where
  "watchPosition_resume stringify d lat lon r s =
     (case fetchAddress_settle stringify r s of
        (Inl e, s1) \<Rightarrow> log (ErrorProcessingPositionData e) s1
      | (Inr rd, s1) \<Rightarrow>
          (let l = location_object lat lon rd;
               s2 = s1\<lparr>locations := locations s1 @ [l]\<rparr>
           in sendLocationEvent ONGOING d (Some l) s2))"

text \<open>The error callback of \<open>Geolocation.watchPosition\<close>.\<close>

definition watchPosition_error :: "GeolocationPositionError \<Rightarrow> session \<Rightarrow> session" where
  "watchPosition_error err s =
     (let s1 = log (LocationTrackingError err) s
      in s1\<lparr>alerts := alerts s1 @ [(''Error'', ''Unable to track location: '' @ message err)]\<rparr>)"

text \<open>
  \<open>startTracking\<close>: \<open>granted\<close> is what \<open>requestLocationPermission\<close> resolves to,
  \<open>dev\<close> what \<open>getDeviceData\<close> settles to. The one-shot read and the subscription are
  registered with the platform; their callbacks run later.
\<close>

definition startTracking :: "bool \<Rightarrow> error + deviceData \<Rightarrow> session \<Rightarrow> session" where
  "startTracking granted dev s =
     (if \<not> granted
      then s\<lparr>alerts := alerts s @ [(''Permission Denied'', ''Location access is required.'')]\<rparr>
      else
        (let s1 = s\<lparr>tracking := True\<rparr>
         in case dev of
              Inl e \<Rightarrow> log (ErrorInStartTracking e) s1
            | Inr d \<Rightarrow>
                (let s2 = s1\<lparr>reads := reads s1 @ [d]\<rparr>;
                     w = nextId s2;
                     s3 = s2\<lparr>watchers := watchers s2 @ [(w, d)], nextId := Suc w\<rparr>
                 in s3\<lparr>watchId := Some w\<rparr>)))"

text \<open>
  \<open>stopTracking\<close>: \<open>r\<close> is what the address lookup settles to when the handler makes
  one, \<open>dev\<close> what \<open>getDeviceData\<close> settles to. \<open>lastLocation\<close> is the last object of
  the \<open>locations\<close> array itself, so the assignment to its \<open>reverseData\<close> is seen in
  the array.
\<close>

definition lastLocation :: "session \<Rightarrow> Location" where
  "lastLocation s =
     (if locations s \<noteq> [] then last (locations s)
      else location_object 0 0 (Some ''Unknown''))"

text \<open>\<open>!lastLocation.reverseData || lastLocation.reverseData === 'Unknown'\<close>\<close>

definition unresolved :: "Location \<Rightarrow> bool" where
  "unresolved l \<longleftrightarrow>
     reverseData l = None \<or> reverseData l = Some [] \<or> reverseData l = Some ''Unknown''"

definition stopTracking ::
  "('a \<Rightarrow> string) \<Rightarrow> 'a outcome \<Rightarrow> error + deviceData \<Rightarrow> session \<Rightarrow> session" where
  "stopTracking stringify r dev s =
     (if \<not> tracking s then log TrackingNotActive s
      else
        (let s1 = (case watchId s of
                     None \<Rightarrow> s
                   | Some w \<Rightarrow> (clearWatch w s)\<lparr>watchId := None\<rparr>);
             s2 = s1\<lparr>tracking := False\<rparr>;
             l = lastLocation s;
             resolved =
               (if unresolved l
                then
                  (case fetchAddress stringify (latitude l) (longitude l) r s2 of
                     (Inl e, s3) \<Rightarrow> Inl (e, s3)
                   | (Inr rd, s3) \<Rightarrow>
                       (let l' = l\<lparr>reverseData := rd\<rparr>
                        in Inr (l', if locations s3 \<noteq> []
                                    then s3\<lparr>locations := butlast (locations s3) @ [l']\<rparr>
                                    else s3)))
                else Inr (l, s2))
         in case resolved of
              Inl (e, s3) \<Rightarrow> log (ErrorStoppingTracking e) s3
            | Inr (l', s3) \<Rightarrow>
                (case dev of
                   Inl e \<Rightarrow> log (ErrorStoppingTracking e) s3
                 | Inr d \<Rightarrow> log (TrackingStopped l') (sendLocationEvent FINISH d (Some l') s3))))"

text \<open>
  The effect of the event-forwarding variant: \<open>mount\<close> opens the socket, and the
  cleanup it returns (\<open>unmount\<close>) closes it. \<open>close()\<close> moves a connecting or open
  socket to \<open>CLOSING\<close> and leaves a closing or closed one as it is.
\<close>

definition mount :: session where
  "mount = \<lparr>tracking = False, locations = [], ws = Some CONNECTING, watchId = None,
            frames = [], console = [], alerts = [], watchers = [], nextId = 0,
            reads = [], requests = [], awaiting = []\<rparr>"

definition close :: "readyState \<Rightarrow> readyState" where
  "close st = (case st of CONNECTING \<Rightarrow> CLOSING | OPEN \<Rightarrow> CLOSING | CLOSING \<Rightarrow> CLOSING | CLOSED \<Rightarrow> CLOSED)"

definition unmount :: "session \<Rightarrow> session" where
  "unmount s = (case ws s of None \<Rightarrow> s | Some st \<Rightarrow> s\<lparr>ws := Some (close st)\<rparr>)"

subsection \<open>The map variant\<close>

text \<open>
  The first \<open>RealTimeMap\<close> shows the position on a map and forwards nothing. Its state
  and ref share their names with the other variant and carry the prefix \<open>map_\<close> here;
  \<open>map_watchers\<close> are the platform's active subscriptions.
\<close>

record map_screen =
  location :: "coordinates option"
  address :: string
  map_tracking :: bool
  loading :: bool
  map_watchId :: "nat option"
  map_watchers :: "nat list"

definition map_clearWatch :: "nat \<Rightarrow> map_screen \<Rightarrow> map_screen" where
  "map_clearWatch w m = m\<lparr>map_watchers := filter (\<lambda>i. i \<noteq> w) (map_watchers m)\<rparr>"

definition map_stopTracking :: "map_screen \<Rightarrow> map_screen" where
  "map_stopTracking m =
     (let m1 = (case map_watchId m of
                  None \<Rightarrow> m
                | Some w \<Rightarrow> (map_clearWatch w m)\<lparr>map_watchId := None\<rparr>)
      in m1\<lparr>map_tracking := False, location := None, address := []\<rparr>)"

definition map_unmount :: "map_screen \<Rightarrow> map_screen" where
  "map_unmount m = (case map_watchId m of None \<Rightarrow> m | Some w \<Rightarrow> map_clearWatch w m)"

section \<open>The event loop\<close>

text \<open>
  What can happen to a mounted component, one event at a time: the two handlers are
  called, the platform answers the oldest one-shot read, delivers a position or an error
  to a subscription, the lookup of the \<open>k\<close>-th suspended callback settles, the socket
  opens or closes, the component is unmounted. A subscription that was cleared gets no
  callback, and a lookup index with no suspended callback is no event.
\<close>

datatype 'a event =
    Start bool "error + deviceData"
  | Stop "'a outcome" "error + deviceData"
  | CurrentPosition "GeolocationPositionError + GeolocationPosition option"
  | WatchPosition nat "GeolocationPosition option"
  | WatchError nat GeolocationPositionError
  | LookupDone nat "'a outcome"
  | SocketOpen
  | SocketClose
  | Unmount

definition resume :: "('a \<Rightarrow> string) \<Rightarrow> task \<Rightarrow> 'a outcome \<Rightarrow> session \<Rightarrow> session" where
  "resume stringify t r s =
     (case t of
        StartLookup d lat lon \<Rightarrow> currentPosition_resume stringify d lat lon r s
      | WatchLookup d lat lon \<Rightarrow> watchPosition_resume stringify d lat lon r s)"

definition step :: "('a \<Rightarrow> string) \<Rightarrow> 'a event \<Rightarrow> session \<Rightarrow> session" where
  "step stringify e s =
     (case e of
        Start granted dev \<Rightarrow> startTracking granted dev s
      | Stop r dev \<Rightarrow> stopTracking stringify r dev s
      | CurrentPosition res \<Rightarrow>
          (case reads s of
             [] \<Rightarrow> s
           | d # ds \<Rightarrow>
               (case res of
                  Inl err \<Rightarrow> currentPosition_error d err (s\<lparr>reads := ds\<rparr>)
                | Inr position \<Rightarrow> currentPosition_success d position (s\<lparr>reads := ds\<rparr>)))
      | WatchPosition w position \<Rightarrow>
          (case map_of (watchers s) w of
             None \<Rightarrow> s
           | Some d \<Rightarrow> watchPosition_success d position s)
      | WatchError w err \<Rightarrow>
          (case map_of (watchers s) w of
             None \<Rightarrow> s
           | Some d \<Rightarrow> watchPosition_error err s)
      | LookupDone k r \<Rightarrow>
          (if k < length (awaiting s)
           then resume stringify (awaiting s ! k) r
                  (s\<lparr>awaiting := take k (awaiting s) @ drop (Suc k) (awaiting s)\<rparr>)
           else s)
      | SocketOpen \<Rightarrow>
          (if ws s = Some CONNECTING then log WebSocketConnected (s\<lparr>ws := Some OPEN\<rparr>) else s)
      | SocketClose \<Rightarrow>
          (case ws s of
             None \<Rightarrow> s
           | Some st \<Rightarrow>
               if st = CLOSED then s else log WebSocketDisconnected (s\<lparr>ws := Some CLOSED\<rparr>))
      | Unmount \<Rightarrow> unmount s)"

fun run :: "('a \<Rightarrow> string) \<Rightarrow> 'a event list \<Rightarrow> session \<Rightarrow> session" where
  "run stringify [] s = s"
| "run stringify (e # es) s = run stringify es (step stringify e s)"

section \<open>Traces\<close>


fun watch_task :: "task \<Rightarrow> bool" where
  "watch_task (WatchLookup d lat lon) = True"
| "watch_task (StartLookup d lat lon) = False"

text \<open>
  The one-shot reads of the session that can still produce a START event: those the
  platform has not answered, and those whose callback is suspended at its lookup.
\<close>

definition outstanding :: "session \<Rightarrow> nat" where
  "outstanding s = length (reads s) + length (filter (\<lambda>t. \<not> watch_task t) (awaiting s))"




text \<open>
  The position-stream callbacks suspended at their lookup, by the position each was
  delivered with, oldest first; and the ONGOING events among a list of payloads.
\<close>

fun task_position :: "task \<Rightarrow> real \<times> real" where
  "task_position (StartLookup d lat lon) = (lat, lon)"
| "task_position (WatchLookup d lat lon) = (lat, lon)"

definition suspended :: "session \<Rightarrow> (real \<times> real) list" where
  "suspended s = map task_position (filter watch_task (awaiting s))"

definition ongoing :: "payload list \<Rightarrow> payload list" where
  "ongoing ps = filter (\<lambda>p. eventType (data p) = ONGOING) ps"

definition position_of :: "Location \<Rightarrow> real \<times> real" where
  "position_of l = (latitude l, longitude l)"

text \<open>The positions that a run delivers with coordinates, in the order of arrival.\<close>

fun arrivals :: "'a event list \<Rightarrow> (real \<times> real) list" where
  "arrivals [] = []"
| "arrivals (WatchPosition w position # es) =
     (case Option.bind position coords of
        None \<Rightarrow> arrivals es
      | Some c \<Rightarrow> (latitude c, longitude c) # arrivals es)"
| "arrivals (_ # es) = arrivals es"

definition resolves :: "'a outcome \<Rightarrow> bool" where
  "resolves r = (case r of Resolved (Data a) \<Rightarrow> True | _ \<Rightarrow> False)"

text \<open>
  An event, in state \<open>s\<close>, of a run in which no handler is called, every position
  is delivered to subscription \<open>w\<close> and has coordinates, and every position-stream
  lookup that settles resolves. The one-shot read and its lookup, the socket and the
  component may do anything.
\<close>

fun stream_event :: "nat \<Rightarrow> 'a event \<Rightarrow> session \<Rightarrow> bool" where
  "stream_event w (Start granted dev) s = False"
| "stream_event w (Stop r dev) s = False"
| "stream_event w (WatchPosition w' position) s =
     (w' = w \<and> Option.bind position coords \<noteq> None)"
| "stream_event w (LookupDone k r) s =
     (k < length (awaiting s) \<and> watch_task (awaiting s ! k) \<longrightarrow> resolves r)"
| "stream_event w _ s = True"

fun all_resolve :: "('a \<Rightarrow> string) \<Rightarrow> nat \<Rightarrow> 'a event list \<Rightarrow> session \<Rightarrow> bool" where
  "all_resolve stringify w [] s = True"
| "all_resolve stringify w (e # es) s =
     (stream_event w e s \<and> all_resolve stringify w es (step stringify e s))"

text \<open>
  An event, in state \<open>s\<close>, of a run in which the position-stream lookups settle in the
  order in which their callbacks arrived: the one that settles belongs to the oldest
  suspended position-stream callback.
\<close>

fun in_order :: "'a event \<Rightarrow> session \<Rightarrow> bool" where
  "in_order (LookupDone k r) s =
     (k < length (awaiting s) \<and> watch_task (awaiting s ! k)
        \<longrightarrow> list_all (\<lambda>t. \<not> watch_task t) (take k (awaiting s)))"
| "in_order _ s = True"

fun arrival_order :: "('a \<Rightarrow> string) \<Rightarrow> 'a event list \<Rightarrow> session \<Rightarrow> bool" where
  "arrival_order stringify [] s = True"
| "arrival_order stringify (e # es) s =
     (in_order e s \<and> arrival_order stringify es (step stringify e s))"

text \<open>
  The first statements of \<open>stopTracking\<close> on a tracking session: the subscription is
  cancelled, the ref cleared and the flag reset.
\<close>

definition cancelled :: "session \<Rightarrow> session" where
  "cancelled s =
     (case watchId s of None \<Rightarrow> s | Some w \<Rightarrow> (clearWatch w s)\<lparr>watchId := None\<rparr>)
     \<lparr>tracking := False\<rparr>"

text \<open>A device, and the types of the events in a list of payloads, for concrete runs.\<close>

definition dev0 :: deviceData where
  "dev0 = \<lparr>deviceId = ''a1'', deviceName = ''phone'', os = ''Android 14''\<rparr>"

definition types :: "payload list \<Rightarrow> event_type list" where
  "types ps = map (\<lambda>p. eventType (data p)) ps"

section \<open>Basic facts\<close>

lemmas eval_defs =
  step_def resume_def startTracking_def stopTracking_def mount_def unmount_def close_def
  currentPosition_success_def currentPosition_resume_def currentPosition_error_def
  watchPosition_success_def watchPosition_resume_def watchPosition_error_def
  fetchAddress_def fetchAddress_call_def fetchAddress_settle_def fetchAddress_request_def
  sendLocationEvent_def make_payload_def number_or_null_def string_or_Unknown_def
  lastLocation_def unresolved_def clearWatch_def location_object_def log_def emitted_def
  dev0_def types_def position_of_def suspended_def ongoing_def resolves_def Let_def

lemma payloads_append: "payloads (xs @ ys) = payloads xs @ payloads ys"
  by (induction xs rule: payloads.induct) simp_all

lemma emitted_log: "emitted (log e s) = emitted s @ payloads [e]"
  by (simp add: emitted_def log_def payloads_append)

lemma emitted_update [simp]:
  "emitted (s\<lparr>tracking := t\<rparr>) = emitted s"
  "emitted (s\<lparr>locations := ls\<rparr>) = emitted s"
  "emitted (s\<lparr>ws := so\<rparr>) = emitted s"
  "emitted (s\<lparr>watchId := wi\<rparr>) = emitted s"
  "emitted (s\<lparr>frames := fs\<rparr>) = emitted s"
  "emitted (s\<lparr>alerts := al\<rparr>) = emitted s"
  "emitted (s\<lparr>watchers := ws'\<rparr>) = emitted s"
  "emitted (s\<lparr>nextId := n\<rparr>) = emitted s"
  "emitted (s\<lparr>reads := rs\<rparr>) = emitted s"
  "emitted (s\<lparr>requests := rq\<rparr>) = emitted s"
  "emitted (s\<lparr>awaiting := aw\<rparr>) = emitted s"
  by (simp_all add: emitted_def)

lemma log_fields [simp]:
  "tracking (log e s) = tracking s" "locations (log e s) = locations s"
  "ws (log e s) = ws s" "watchId (log e s) = watchId s" "frames (log e s) = frames s"
  "alerts (log e s) = alerts s" "watchers (log e s) = watchers s" "nextId (log e s) = nextId s"
  "reads (log e s) = reads s" "requests (log e s) = requests s" "awaiting (log e s) = awaiting s"
  "console (log e s) = console s @ [e]"
  by (simp_all add: log_def)

lemma sendLocationEvent_fields [simp]:
  "tracking (sendLocationEvent t d l s) = tracking s"
  "locations (sendLocationEvent t d l s) = locations s"
  "ws (sendLocationEvent t d l s) = ws s"
  "watchId (sendLocationEvent t d l s) = watchId s"
  "alerts (sendLocationEvent t d l s) = alerts s"
  "watchers (sendLocationEvent t d l s) = watchers s"
  "nextId (sendLocationEvent t d l s) = nextId s"
  "reads (sendLocationEvent t d l s) = reads s"
  "requests (sendLocationEvent t d l s) = requests s"
  "awaiting (sendLocationEvent t d l s) = awaiting s"
  by (simp_all add: sendLocationEvent_def Let_def)

lemma emitted_sendLocationEvent:
  "emitted (sendLocationEvent t d l s) = emitted s @ [make_payload t d l]"
  by (simp add: sendLocationEvent_def Let_def emitted_def payloads_append)

lemma frames_sendLocationEvent:
  "frames (sendLocationEvent t d l s) =
     (if ws s = Some OPEN then frames s @ [make_payload t d l] else frames s)"
  by (simp add: sendLocationEvent_def Let_def)



lemma types_make_payload: "types [make_payload t d l] = [t]"
  by (simp add: types_def make_payload_def)

lemma map_of_cleared: "map_of (filter (\<lambda>(i, d). i \<noteq> w) xs) w = None"
  by (induction xs) auto

lemma filter_without_nth:
  assumes "k < length xs"
  shows "filter Q xs
           = filter Q (take k xs) @ (if Q (xs ! k) then [xs ! k] else []) @ filter Q (drop (Suc k) xs)"
proof -
  have "filter Q xs = filter Q (take k xs @ xs ! k # drop (Suc k) xs)"
    using assms by (simp add: id_take_nth_drop [symmetric])
  then show ?thesis by simp
qed


section \<open>Starting a session\<close>




lemma outstanding_fields [simp]:
  "outstanding (log e s) = outstanding s"
  "outstanding (sendLocationEvent t d l s) = outstanding s"
  by (simp_all add: outstanding_def)










section \<open>Stopping a session\<close>

lemma cancelled_fields:
  "\<not> tracking (cancelled s)" "watchId (cancelled s) = None"
  "watchId s = Some w \<Longrightarrow> map_of (watchers (cancelled s)) w = None"
  "emitted (cancelled s) = emitted s" "locations (cancelled s) = locations s"
  by (simp_all add: cancelled_def clearWatch_def map_of_cleared emitted_def split: option.splits)

lemma stopTracking_resolved:
  assumes "tracking s" and "\<not> unresolved (lastLocation s)"
  shows "stopTracking J r dev s =
           (case dev of
              Inl e \<Rightarrow> log (ErrorStoppingTracking e) (cancelled s)
            | Inr d \<Rightarrow> log (TrackingStopped (lastLocation s))
                         (sendLocationEvent FINISH d (Some (lastLocation s)) (cancelled s)))"
  using assms by (simp add: stopTracking_def Let_def cancelled_def split: sum.splits)

lemma stopTracking_lookup_failed:
  assumes "tracking s" and "unresolved (lastLocation s)"
    and "fetchAddress J (latitude (lastLocation s)) (longitude (lastLocation s)) r (cancelled s)
           = (Inl e, s3)"
  shows "stopTracking J r dev s = log (ErrorStoppingTracking e) s3"
  using assms by (simp add: stopTracking_def Let_def cancelled_def split: sum.splits)

lemma stopTracking_lookup_resolved:
  assumes "tracking s" and "unresolved (lastLocation s)"
    and "fetchAddress J (latitude (lastLocation s)) (longitude (lastLocation s)) r (cancelled s)
           = (Inr rd, s3)"
  shows "stopTracking J r dev s =
           (let l' = (lastLocation s)\<lparr>reverseData := rd\<rparr>;
                s4 = (if locations s3 \<noteq> [] then s3\<lparr>locations := butlast (locations s3) @ [l']\<rparr>
                      else s3)
            in case dev of
                 Inl e \<Rightarrow> log (ErrorStoppingTracking e) s4
               | Inr d \<Rightarrow> log (TrackingStopped l') (sendLocationEvent FINISH d (Some l') s4))"
  using assms by (simp add: stopTracking_def Let_def cancelled_def split: sum.splits)

lemma fetchAddress_fields:
  "tracking (snd (fetchAddress J lat lon r s)) = tracking s"
  "watchId (snd (fetchAddress J lat lon r s)) = watchId s"
  "watchers (snd (fetchAddress J lat lon r s)) = watchers s"
  "emitted (snd (fetchAddress J lat lon r s)) = emitted s"
  "locations (snd (fetchAddress J lat lon r s)) = locations s"
  by (simp_all add: fetchAddress_def fetchAddress_settle_def fetchAddress_call_def emitted_log
        split: outcome.splits body.splits)

lemma fetchAddress_result:
  "fst (fetchAddress J lat lon r s) =
     (case r of Rejected e \<Rightarrow> Inl e | Resolved NoData \<Rightarrow> Inl TypeError
      | Resolved (Data a) \<Rightarrow> Inr (map_option J a))"
  by (simp add: fetchAddress_def fetchAddress_settle_def split: outcome.splits body.splits)

lemma stopTracking_flags:
  assumes "tracking s"
  shows "\<not> tracking (stopTracking J r dev s) \<and> watchId (stopTracking J r dev s) = None
         \<and> (\<forall>w. watchId s = Some w \<longrightarrow> map_of (watchers (stopTracking J r dev s)) w = None)"
proof (cases "unresolved (lastLocation s)")
  case False
  show ?thesis
    unfolding stopTracking_resolved [OF assms False]
    by (simp add: cancelled_fields split: sum.splits)
next
  case True
  let ?f = "fetchAddress J (latitude (lastLocation s)) (longitude (lastLocation s)) r (cancelled s)"
  obtain x s3 where f: "?f = (x, s3)" by (cases ?f)
  have s3: "s3 = snd ?f" by (simp add: f)
  have fl: "\<not> tracking s3" "watchId s3 = None"
    "\<And>w. watchId s = Some w \<Longrightarrow> map_of (watchers s3) w = None"
    unfolding s3 by (simp_all add: fetchAddress_fields cancelled_fields)
  show ?thesis
  proof (cases x)
    case (Inl e)
    with f have "?f = (Inl e, s3)" by simp
    from stopTracking_lookup_failed [OF assms True this] fl show ?thesis by simp
  next
    case (Inr rd)
    with f have "?f = (Inr rd, s3)" by simp
    from stopTracking_lookup_resolved [OF assms True this] fl show ?thesis
      by (simp add: Let_def split: sum.splits)
  qed
qed

lemma emitted_stopTracking:
  assumes "tracking s"
  shows "emitted (stopTracking J r dev s) = emitted s @
           (case dev of
              Inl e \<Rightarrow> []
            | Inr d \<Rightarrow>
                if unresolved (lastLocation s)
                then (case r of
                        Resolved (Data a) \<Rightarrow>
                          [make_payload FINISH d
                             (Some ((lastLocation s)\<lparr>reverseData := map_option J a\<rparr>))]
                      | _ \<Rightarrow> [])
                else [make_payload FINISH d (Some (lastLocation s))])"
proof (cases "unresolved (lastLocation s)")
  case False
  show ?thesis
    unfolding stopTracking_resolved [OF assms False] using False
    by (simp add: cancelled_fields emitted_log emitted_sendLocationEvent split: sum.splits)
next
  case True
  let ?f = "fetchAddress J (latitude (lastLocation s)) (longitude (lastLocation s)) r (cancelled s)"
  obtain x s3 where f: "?f = (x, s3)" by (cases ?f)
  have s3: "s3 = snd ?f" and x: "x = fst ?f" by (simp_all add: f)
  have em: "emitted s3 = emitted s"
    unfolding s3 by (simp add: fetchAddress_fields cancelled_fields)
  show ?thesis
  proof (cases x)
    case (Inl e)
    with f have fe: "?f = (Inl e, s3)" by simp
    from Inl x have "\<forall>a. r \<noteq> Resolved (Data a)"
      by (auto simp: fetchAddress_result)
    then have "(case r of Resolved (Data a) \<Rightarrow>
                  [make_payload FINISH d (Some ((lastLocation s)\<lparr>reverseData := map_option J a\<rparr>))]
                | _ \<Rightarrow> []) = []" for d
      by (cases r) (auto split: body.splits)
    with stopTracking_lookup_failed [OF assms True fe] em True show ?thesis
      by (simp add: emitted_log split: sum.splits)
  next
    case (Inr rd)
    with f have fr: "?f = (Inr rd, s3)" by simp
    from Inr x obtain a where r: "r = Resolved (Data a)" and rd: "rd = map_option J a"
      by (auto simp: fetchAddress_result split: outcome.splits body.splits)
    from stopTracking_lookup_resolved [OF assms True fr] em True r rd show ?thesis
      by (simp add: Let_def emitted_log emitted_sendLocationEvent split: sum.splits)
  qed
qed

text \<open>
  C2, as the code has it. \<open>stopTracking\<close> on a tracking session cancels the position
  subscription, clears the handle and resets the tracking flag, whatever happens next. It
  emits exactly one FINISH event when the device data are read and the last known
  location has an address (then with that location), or has none, an empty one or
  \<open>Unknown\<close>, or there is no location, and the address lookup made for it resolves (then
  with the address just resolved). When the lookup or the device query fails, the
  \<open>catch\<close> logs the error and no FINISH event is emitted.
\<close>

theorem stopTracking_while_tracking:
  assumes "tracking s"
  shows "let s' = stopTracking stringify r dev s
         in \<not> tracking s' \<and> watchId s' = None
            \<and> (\<forall>w. watchId s = Some w \<longrightarrow> map_of (watchers s') w = None)
            \<and> (\<forall>d. dev = Inr d \<and> \<not> unresolved (lastLocation s)
                 \<longrightarrow> emitted s' = emitted s @ [make_payload FINISH d (Some (lastLocation s))])
            \<and> (\<forall>d a. dev = Inr d \<and> unresolved (lastLocation s) \<and> r = Resolved (Data a)
                 \<longrightarrow> emitted s' = emitted s
                       @ [make_payload FINISH d
                            (Some ((lastLocation s)\<lparr>reverseData := map_option stringify a\<rparr>))])
            \<and> ((\<exists>e. dev = Inl e) \<or> (unresolved (lastLocation s) \<and> (\<forall>a. r \<noteq> Resolved (Data a)))
                 \<longrightarrow> emitted s' = emitted s)
            \<and> types [make_payload FINISH d' l] = [FINISH]"
  unfolding Let_def
  using stopTracking_flags [OF assms, of stringify r dev]
        emitted_stopTracking [OF assms, of stringify r dev]
  by (auto simp: types_make_payload split: sum.splits outcome.splits body.splits)


theorem stopTracking_while_tracking_witness:
  "tracking (run id [Start True (Inr dev0)] mount)
   \<and> \<not> tracking (stopTracking id (Resolved (Data (Some ''{}''))) (Inr dev0)
          (run id [Start True (Inr dev0)] mount))
   \<and> watchId (stopTracking id (Resolved (Data (Some ''{}''))) (Inr dev0)
          (run id [Start True (Inr dev0)] mount)) = None
   \<and> emitted (stopTracking id (Resolved (Data (Some ''{}''))) (Inr dev0)
          (run id [Start True (Inr dev0)] mount))
       = [make_payload FINISH dev0 (Some (location_object 0 0 (Some ''{}'')))]
   \<and> tracking (run id [Start True (Inr dev0),
          WatchPosition 0 (Some \<lparr>coords = Some \<lparr>latitude = 1, longitude = 2\<rparr>\<rparr>),
          LookupDone 0 (Resolved (Data (Some ''a'')))] mount)
   \<and> emitted (stopTracking id (Rejected NetworkError) (Inr dev0)
          (run id [Start True (Inr dev0),
             WatchPosition 0 (Some \<lparr>coords = Some \<lparr>latitude = 1, longitude = 2\<rparr>\<rparr>),
             LookupDone 0 (Resolved (Data (Some ''a'')))] mount))
       = [make_payload ONGOING dev0 (Some (location_object 1 2 (Some ''a''))),
          make_payload FINISH dev0 (Some (location_object 1 2 (Some ''a'')))]"
proof -
  have h: "tracking (run id [Start True (Inr dev0)] mount)"
    by (simp add: step_def startTracking_def mount_def Let_def)
  have u: "unresolved (lastLocation (run id [Start True (Inr dev0)] mount))"
    and l: "lastLocation (run id [Start True (Inr dev0)] mount)
              = location_object 0 0 (Some ''Unknown'')"
    and e: "emitted (run id [Start True (Inr dev0)] mount) = []"
    by (simp_all add: step_def startTracking_def mount_def Let_def lastLocation_def
          unresolved_def location_object_def emitted_def)
  have h': "tracking (run id [Start True (Inr dev0),
          WatchPosition 0 (Some \<lparr>coords = Some \<lparr>latitude = 1, longitude = 2\<rparr>\<rparr>),
          LookupDone 0 (Resolved (Data (Some ''a'')))] mount)"
    and u': "\<not> unresolved (lastLocation (run id [Start True (Inr dev0),
          WatchPosition 0 (Some \<lparr>coords = Some \<lparr>latitude = 1, longitude = 2\<rparr>\<rparr>),
          LookupDone 0 (Resolved (Data (Some ''a'')))] mount))"
    and l': "lastLocation (run id [Start True (Inr dev0),
          WatchPosition 0 (Some \<lparr>coords = Some \<lparr>latitude = 1, longitude = 2\<rparr>\<rparr>),
          LookupDone 0 (Resolved (Data (Some ''a'')))] mount) = location_object 1 2 (Some ''a'')"
    and e': "emitted (run id [Start True (Inr dev0),
          WatchPosition 0 (Some \<lparr>coords = Some \<lparr>latitude = 1, longitude = 2\<rparr>\<rparr>),
          LookupDone 0 (Resolved (Data (Some ''a'')))] mount)
        = [make_payload ONGOING dev0 (Some (location_object 1 2 (Some ''a'')))]"
    by (simp_all add: eval_defs)
  from stopTracking_while_tracking [OF h, of id "Resolved (Data (Some ''{}''))" "Inr dev0"]
       stopTracking_while_tracking [OF h', of id "Rejected NetworkError" "Inr dev0"]
       u h l e u' h' l' e'
  show ?thesis
    by (simp add: Let_def location_object_def)
qed

text \<open>
  C2 as stated fails: a session that is stopped before any position was recorded looks up
  the address of \<open>(0, 0)\<close>, and when that lookup is answered with status 500 the handler
  ends in its \<open>catch\<close>. The session is idle again and no FINISH event was emitted.
\<close>

theorem stopTracking_without_FINISH:
  "tracking (run id [Start True (Inr dev0)] mount)
   \<and> emitted (stopTracking (id :: string \<Rightarrow> string) (Rejected (BadStatus 500)) (Inr dev0)
        (run id [Start True (Inr dev0)] mount)) = []
   \<and> \<not> tracking (stopTracking (id :: string \<Rightarrow> string) (Rejected (BadStatus 500)) (Inr dev0)
        (run id [Start True (Inr dev0)] mount))"
  by (simp add: eval_defs)


section \<open>The position stream\<close>

lemma ongoing_append: "ongoing (xs @ ys) = ongoing xs @ ongoing ys"
  by (simp add: ongoing_def)

lemma ongoing_make_payload:
  "ongoing [make_payload t d l] = (if t = ONGOING then [make_payload t d l] else [])"
  by (simp add: ongoing_def make_payload_def)

lemma arrivals_Cons: "arrivals (e # es) = arrivals [e] @ arrivals es"
  by (cases e) (simp_all split: option.splits)

lemma suspended_fields [simp]:
  "suspended (log e s) = suspended s"
  "suspended (sendLocationEvent t d l s) = suspended s"
  by (simp_all add: suspended_def)

text \<open>One event of a run in which every position-stream lookup that settles resolves.\<close>

lemma step_resolving:
  assumes "map_of (watchers s) w = Some d" and "stream_event w e s"
  shows "\<exists>ls. locations (step J e s) = locations s @ ls
           \<and> length ls + length (suspended (step J e s))
               = length (suspended s) + length (arrivals [e])
           \<and> length (ongoing (emitted (step J e s))) = length (ongoing (emitted s)) + length ls
           \<and> (in_order e s \<longrightarrow>
                map position_of ls @ suspended (step J e s) = suspended s @ arrivals [e])
           \<and> watchers (step J e s) = watchers s"
proof (cases e)
  case (LookupDone k r)
  show ?thesis
  proof (cases "k < length (awaiting s)")
    case False
    with LookupDone show ?thesis by (simp add: step_def)
  next
    case True
    let ?s0 = "s\<lparr>awaiting := take k (awaiting s) @ drop (Suc k) (awaiting s)\<rparr>"
    have st: "step J e s = resume J (awaiting s ! k) r ?s0"
      using LookupDone True by (simp add: step_def)
    note fl = filter_without_nth [OF True, of watch_task]
    show ?thesis
    proof (cases "awaiting s ! k")
      case (StartLookup d' lat lon)
      with fl have "suspended ?s0 = suspended s" by (simp add: suspended_def)
      with StartLookup LookupDone show ?thesis
        unfolding st
        by (auto simp: resume_def currentPosition_resume_def fetchAddress_settle_def
              emitted_log emitted_sendLocationEvent ongoing_append ongoing_make_payload
            split: outcome.splits body.splits)
    next
      case (WatchLookup d' lat lon)
      with assms(2) LookupDone True obtain a where r: "r = Resolved (Data a)"
        by (auto simp: resolves_def split: outcome.splits body.splits)
      let ?l = "location_object lat lon (map_option J a)"
      have len: "length (suspended s) = Suc (length (suspended ?s0))"
        using fl WatchLookup by (simp add: suspended_def)
      have ord: "suspended s = (lat, lon) # suspended ?s0"
        if "list_all (\<lambda>t. \<not> watch_task t) (take k (awaiting s))"
      proof -
        from that have "filter watch_task (take k (awaiting s)) = []"
          by (simp add: filter_empty_conv list_all_iff)
        with fl WatchLookup show ?thesis by (simp add: suspended_def)
      qed
      have res: "step J e s = sendLocationEvent ONGOING d' (Some ?l)
                   (?s0\<lparr>locations := locations s @ [?l]\<rparr>)"
        unfolding st using WatchLookup r
        by (simp add: resume_def watchPosition_resume_def fetchAddress_settle_def Let_def)
      have "locations (step J e s) = locations s @ [?l]"
        and "suspended (step J e s) = suspended ?s0"
        and "emitted (step J e s) = emitted s @ [make_payload ONGOING d' (Some ?l)]"
        and "watchers (step J e s) = watchers s"
        unfolding res by (simp_all add: emitted_sendLocationEvent suspended_def)
      with len ord LookupDone True WatchLookup show ?thesis
        by (auto simp: ongoing_append ongoing_make_payload position_of_def location_object_def
              intro!: exI [of _ "[?l]"])
    qed
  qed
next
  case (CurrentPosition res)
  then show ?thesis
    by (auto simp: step_def currentPosition_error_def currentPosition_success_def
          fetchAddress_call_def suspended_def emitted_log emitted_sendLocationEvent
          ongoing_append ongoing_make_payload Let_def
        split: sum.splits option.splits list.splits)
next
  case (WatchPosition w' position)
  with assms show ?thesis
    by (auto simp: step_def watchPosition_success_def fetchAddress_call_def suspended_def
          Let_def)
qed (use assms in \<open>auto simp: step_def watchPosition_error_def unmount_def suspended_def
       emitted_log Let_def split: option.splits\<close>)

lemma run_resolving:
  assumes "map_of (watchers s) w = Some d" and "all_resolve J w es s"
  shows "\<exists>ls. locations (run J es s) = locations s @ ls
           \<and> length ls + length (suspended (run J es s))
               = length (suspended s) + length (arrivals es)
           \<and> length (ongoing (emitted (run J es s))) = length (ongoing (emitted s)) + length ls
           \<and> (arrival_order J es s \<longrightarrow>
                map position_of ls @ suspended (run J es s) = suspended s @ arrivals es)"
  using assms
proof (induction es arbitrary: s)
  case Nil
  then show ?case by simp
next
  case (Cons e es)
  let ?s1 = "step J e s"
  from Cons.prems(2) have e: "stream_event w e s" and es: "all_resolve J w es ?s1"
    by simp_all
  from step_resolving [OF Cons.prems(1) e, of J] obtain l1
    where l1: "locations ?s1 = locations s @ l1"
      and n1: "length l1 + length (suspended ?s1) = length (suspended s) + length (arrivals [e])"
      and o1: "length (ongoing (emitted ?s1)) = length (ongoing (emitted s)) + length l1"
      and p1: "in_order e s \<Longrightarrow>
                 map position_of l1 @ suspended ?s1 = suspended s @ arrivals [e]"
      and w1: "watchers ?s1 = watchers s"
    by blast
  from Cons.prems(1) w1 have "map_of (watchers ?s1) w = Some d" by simp
  from Cons.IH [OF this es] obtain l2
    where l2: "locations (run J es ?s1) = locations ?s1 @ l2"
      and n2: "length l2 + length (suspended (run J es ?s1))
                 = length (suspended ?s1) + length (arrivals es)"
      and o2: "length (ongoing (emitted (run J es ?s1)))
                 = length (ongoing (emitted ?s1)) + length l2"
      and p2: "arrival_order J es ?s1 \<Longrightarrow>
                 map position_of l2 @ suspended (run J es ?s1) = suspended ?s1 @ arrivals es"
    by blast
  have ar: "arrivals (e # es) = arrivals [e] @ arrivals es" by (rule arrivals_Cons)
  have "locations (run J (e # es) s) = locations s @ (l1 @ l2)"
    using l1 l2 by simp
  moreover have "length (l1 @ l2) + length (suspended (run J (e # es) s))
                   = length (suspended s) + length (arrivals (e # es))"
    using n1 n2 unfolding ar by simp
  moreover have "length (ongoing (emitted (run J (e # es) s)))
                   = length (ongoing (emitted s)) + length (l1 @ l2)"
    using o1 o2 by simp
  moreover have "map position_of (l1 @ l2) @ suspended (run J (e # es) s)
                   = suspended s @ arrivals (e # es)"
    if "arrival_order J (e # es) s"
  proof -
    from that have "in_order e s" and "arrival_order J es ?s1" by simp_all
    from p1 [OF this(1)] p2 [OF this(2)]
    have a: "map position_of l1 @ suspended ?s1 = suspended s @ arrivals [e]"
      and b: "map position_of l2 @ suspended (run J es ?s1) = suspended ?s1 @ arrivals es" .
    have "map position_of (l1 @ l2) @ suspended (run J (e # es) s)
            = map position_of l1 @ (map position_of l2 @ suspended (run J es ?s1))"
      by simp
    also have "\<dots> = (map position_of l1 @ suspended ?s1) @ arrivals es"
      unfolding b by simp
    also have "\<dots> = suspended s @ arrivals (e # es)"
      unfolding a ar by simp
    finally show ?thesis .
  qed
  ultimately show ?case by blast
qed


text \<open>
  C3, as the code has it. Positions with coordinates are delivered to the active
  subscription, \<open>N\<close> of them, in a run in which no handler is called and every
  position-stream lookup that settles resolves; the lookups may overlap. Then one
  Location Record is appended for each lookup that has resolved, and one ONGOING event
  emitted for each record: the records appended and the callbacks still suspended are,
  together, the \<open>N\<close> deliveries and the callbacks suspended at the outset. So exactly
  \<open>N\<close> records are appended and \<open>N\<close> ONGOING events emitted when no position-stream
  callback is suspended at the outset or at the end. When the lookups resolve in the
  order in which their callbacks arrived, the records are appended in that order.
\<close>

theorem watch_callbacks_resolved:
  assumes "map_of (watchers s) w = Some d" and "all_resolve stringify w es s"
  shows "\<exists>ls. locations (run stringify es s) = locations s @ ls
           \<and> length ls + length (suspended (run stringify es s))
               = length (suspended s) + length (arrivals es)
           \<and> length (ongoing (emitted (run stringify es s)))
               = length (ongoing (emitted s)) + length ls
           \<and> (suspended s = [] \<and> suspended (run stringify es s) = []
                \<longrightarrow> length ls = length (arrivals es))
           \<and> (arrival_order stringify es s \<longrightarrow>
                map position_of ls @ suspended (run stringify es s) = suspended s @ arrivals es)
           \<and> (arrival_order stringify es s \<and> suspended s = []
                \<and> suspended (run stringify es s) = []
                \<longrightarrow> map position_of ls = arrivals es)"
proof -
  from run_resolving [OF assms] obtain ls
    where "locations (run stringify es s) = locations s @ ls"
      and n: "length ls + length (suspended (run stringify es s))
               = length (suspended s) + length (arrivals es)"
      and "length (ongoing (emitted (run stringify es s)))
               = length (ongoing (emitted s)) + length ls"
      and p: "arrival_order stringify es s \<longrightarrow>
             map position_of ls @ suspended (run stringify es s) = suspended s @ arrivals es"
    by blast
  moreover from n have "suspended s = [] \<and> suspended (run stringify es s) = []
                         \<longrightarrow> length ls = length (arrivals es)"
    by auto
  moreover from p have "arrival_order stringify es s \<and> suspended s = []
                         \<and> suspended (run stringify es s) = []
                         \<longrightarrow> map position_of ls = arrivals es"
    by auto
  ultimately show ?thesis by blast
qed

theorem watch_callbacks_resolved_witness:
  "map_of (watchers (run id [Start True (Inr dev0)] mount)) 0 = Some dev0
   \<and> all_resolve id 0
        [WatchPosition 0 (Some \<lparr>coords = Some \<lparr>latitude = 1, longitude = 2\<rparr>\<rparr>),
         WatchPosition 0 (Some \<lparr>coords = Some \<lparr>latitude = 3, longitude = 4\<rparr>\<rparr>),
         LookupDone 0 (Resolved (Data (Some ''a''))),
         LookupDone 0 (Resolved (Data (Some ''b'')))]
        (run id [Start True (Inr dev0)] mount)
   \<and> arrival_order id
        [WatchPosition 0 (Some \<lparr>coords = Some \<lparr>latitude = 1, longitude = 2\<rparr>\<rparr>),
         WatchPosition 0 (Some \<lparr>coords = Some \<lparr>latitude = 3, longitude = 4\<rparr>\<rparr>),
         LookupDone 0 (Resolved (Data (Some ''a''))),
         LookupDone 0 (Resolved (Data (Some ''b'')))]
        (run id [Start True (Inr dev0)] mount)
   \<and> suspended (run id [Start True (Inr dev0)] mount) = []
   \<and> suspended (run id
        [WatchPosition 0 (Some \<lparr>coords = Some \<lparr>latitude = 1, longitude = 2\<rparr>\<rparr>),
         WatchPosition 0 (Some \<lparr>coords = Some \<lparr>latitude = 3, longitude = 4\<rparr>\<rparr>),
         LookupDone 0 (Resolved (Data (Some ''a''))),
         LookupDone 0 (Resolved (Data (Some ''b'')))]
        (run id [Start True (Inr dev0)] mount)) = []
   \<and> map position_of (locations (run id
        [WatchPosition 0 (Some \<lparr>coords = Some \<lparr>latitude = 1, longitude = 2\<rparr>\<rparr>),
         WatchPosition 0 (Some \<lparr>coords = Some \<lparr>latitude = 3, longitude = 4\<rparr>\<rparr>),
         LookupDone 0 (Resolved (Data (Some ''a''))),
         LookupDone 0 (Resolved (Data (Some ''b'')))]
        (run id [Start True (Inr dev0)] mount))) = [(1, 2), (3, 4)]
   \<and> length (ongoing (emitted (run id
        [WatchPosition 0 (Some \<lparr>coords = Some \<lparr>latitude = 1, longitude = 2\<rparr>\<rparr>),
         WatchPosition 0 (Some \<lparr>coords = Some \<lparr>latitude = 3, longitude = 4\<rparr>\<rparr>),
         LookupDone 0 (Resolved (Data (Some ''a''))),
         LookupDone 0 (Resolved (Data (Some ''b'')))]
        (run id [Start True (Inr dev0)] mount)))) = 2
   \<and> all_resolve id 0
        [WatchPosition 0 (Some \<lparr>coords = Some \<lparr>latitude = 1, longitude = 2\<rparr>\<rparr>),
         WatchPosition 0 (Some \<lparr>coords = Some \<lparr>latitude = 3, longitude = 4\<rparr>\<rparr>),
         LookupDone 1 (Resolved (Data (Some ''b''))),
         LookupDone 0 (Resolved (Data (Some ''a'')))]
        (run id [Start True (Inr dev0)] mount)
   \<and> suspended (run id
        [WatchPosition 0 (Some \<lparr>coords = Some \<lparr>latitude = 1, longitude = 2\<rparr>\<rparr>),
         WatchPosition 0 (Some \<lparr>coords = Some \<lparr>latitude = 3, longitude = 4\<rparr>\<rparr>),
         LookupDone 1 (Resolved (Data (Some ''b''))),
         LookupDone 0 (Resolved (Data (Some ''a'')))]
        (run id [Start True (Inr dev0)] mount)) = []
   \<and> length (locations (run id
        [WatchPosition 0 (Some \<lparr>coords = Some \<lparr>latitude = 1, longitude = 2\<rparr>\<rparr>),
         WatchPosition 0 (Some \<lparr>coords = Some \<lparr>latitude = 3, longitude = 4\<rparr>\<rparr>),
         LookupDone 1 (Resolved (Data (Some ''b''))),
         LookupDone 0 (Resolved (Data (Some ''a'')))]
        (run id [Start True (Inr dev0)] mount))) = 2
   \<and> length (ongoing (emitted (run id
        [WatchPosition 0 (Some \<lparr>coords = Some \<lparr>latitude = 1, longitude = 2\<rparr>\<rparr>),
         WatchPosition 0 (Some \<lparr>coords = Some \<lparr>latitude = 3, longitude = 4\<rparr>\<rparr>),
         LookupDone 1 (Resolved (Data (Some ''b''))),
         LookupDone 0 (Resolved (Data (Some ''a'')))]
        (run id [Start True (Inr dev0)] mount)))) = 2"
proof -
  let ?s = "run id [Start True (Inr dev0)] mount"
  let ?inorder = "[WatchPosition 0 (Some \<lparr>coords = Some \<lparr>latitude = 1, longitude = 2\<rparr>\<rparr>),
         WatchPosition 0 (Some \<lparr>coords = Some \<lparr>latitude = 3, longitude = 4\<rparr>\<rparr>),
         LookupDone 0 (Resolved (Data (Some ''a''))),
         LookupDone 0 (Resolved (Data (Some ''b'')))]"
  let ?swapped = "[WatchPosition 0 (Some \<lparr>coords = Some \<lparr>latitude = 1, longitude = 2\<rparr>\<rparr>),
         WatchPosition 0 (Some \<lparr>coords = Some \<lparr>latitude = 3, longitude = 4\<rparr>\<rparr>),
         LookupDone 1 (Resolved (Data (Some ''b''))),
         LookupDone 0 (Resolved (Data (Some ''a'')))]"
  have w: "map_of (watchers ?s) 0 = Some dev0"
    and s0: "suspended ?s = []" "locations ?s = []" "ongoing (emitted ?s) = []"
    by (simp_all add: eval_defs)
  have r1: "all_resolve id 0 ?inorder ?s" and o1: "arrival_order id ?inorder ?s"
    and e1: "suspended (run id ?inorder ?s) = []"
    by (simp_all add: eval_defs)
  have r2: "all_resolve id 0 ?swapped ?s" and e2: "suspended (run id ?swapped ?s) = []"
    by (simp_all add: eval_defs)
  have a: "arrivals ?inorder = [(1, 2), (3, 4)]" "arrivals ?swapped = [(1, 2), (3, 4)]"
    by simp_all
  from watch_callbacks_resolved [OF w r1] s0 e1 o1 a(1)
  have c1: "map position_of (locations (run id ?inorder ?s)) = [(1, 2), (3, 4)]"
    "length (ongoing (emitted (run id ?inorder ?s))) = 2"
    by auto
  from watch_callbacks_resolved [OF w r2] s0 e2 a(2)
  have c2: "length (locations (run id ?swapped ?s)) = 2"
    "length (ongoing (emitted (run id ?swapped ?s))) = 2"
    by auto
  from w r1 o1 s0(1) e1 c1 r2 e2 c2 show ?thesis by blast
qed


text \<open>
  C3 as stated fails: three positions with coordinates are delivered while the session
  is tracking; the lookup of the third resolves first, then that of the second, and the
  lookup of the first is answered with status 500. Two records were appended, the third
  position before the second, and two ONGOING events were emitted.
\<close>

theorem watch_callbacks_out_of_order:
  "tracking (run id [Start True (Inr dev0)] mount)
   \<and> locations (run id
        [Start True (Inr dev0),
         WatchPosition 0 (Some \<lparr>coords = Some \<lparr>latitude = 1, longitude = 2\<rparr>\<rparr>),
         WatchPosition 0 (Some \<lparr>coords = Some \<lparr>latitude = 3, longitude = 4\<rparr>\<rparr>),
         WatchPosition 0 (Some \<lparr>coords = Some \<lparr>latitude = 5, longitude = 6\<rparr>\<rparr>),
         LookupDone 2 (Resolved (Data (Some ''c''))),
         LookupDone 1 (Resolved (Data (Some ''b''))),
         LookupDone 0 (Rejected (BadStatus 500))] mount)
     = [location_object 5 6 (Some ''c''), location_object 3 4 (Some ''b'')]
   \<and> types (emitted (run id
        [Start True (Inr dev0),
         WatchPosition 0 (Some \<lparr>coords = Some \<lparr>latitude = 1, longitude = 2\<rparr>\<rparr>),
         WatchPosition 0 (Some \<lparr>coords = Some \<lparr>latitude = 3, longitude = 4\<rparr>\<rparr>),
         WatchPosition 0 (Some \<lparr>coords = Some \<lparr>latitude = 5, longitude = 6\<rparr>\<rparr>),
         LookupDone 2 (Resolved (Data (Some ''c''))),
         LookupDone 1 (Resolved (Data (Some ''b''))),
         LookupDone 0 (Rejected (BadStatus 500))] mount))
     = [ONGOING, ONGOING]"
  by (simp add: eval_defs)

text \<open>
  C9. A position with coordinates is delivered to the active subscription and the address
  lookup of that callback fails: the request is rejected, or the response has no data, so
  that \<open>fetchAddress\<close> throws. When the callback has run to its end, the tracking flag,
  the locations, the subscription handle and the socket are as they were, no frame was
  sent and no event emitted, no callback is left suspended, and the console has the two
  error lines of \<open>fetchAddress\<close> and of the callback's \<open>catch\<close>.
\<close>

theorem watch_callback_lookup_fails:
  assumes "map_of (watchers s) w = Some d"
    and "r = Rejected e \<or> (r = Resolved NoData \<and> e = TypeError)"
  shows "let s' = run stringify [WatchPosition w (Some \<lparr>coords = Some c\<rparr>),
                                 LookupDone (length (awaiting s)) r] s
         in tracking s' = tracking s \<and> locations s' = locations s \<and> watchId s' = watchId s
            \<and> ws s' = ws s \<and> frames s' = frames s \<and> emitted s' = emitted s
            \<and> awaiting s' = awaiting s
            \<and> console s' = console s @ [ErrorFetchingAddress e, ErrorProcessingPositionData e]"
  using assms
  by (auto simp: step_def watchPosition_success_def fetchAddress_call_def resume_def
        watchPosition_resume_def fetchAddress_settle_def log_def emitted_def payloads_append
        Let_def)

theorem watch_callback_lookup_fails_witness:
  "map_of (watchers (run id [Start True (Inr dev0)] mount)) 0 = Some dev0
   \<and> locations (run id
        [WatchPosition 0 (Some \<lparr>coords = Some \<lparr>latitude = 1, longitude = 2\<rparr>\<rparr>),
         LookupDone (length (awaiting (run id [Start True (Inr dev0)] mount)))
           (Rejected (BadStatus 500))]
        (run id [Start True (Inr dev0)] mount)) = []
   \<and> emitted (run id
        [WatchPosition 0 (Some \<lparr>coords = Some \<lparr>latitude = 1, longitude = 2\<rparr>\<rparr>),
         LookupDone (length (awaiting (run id [Start True (Inr dev0)] mount)))
           (Rejected (BadStatus 500))]
        (run id [Start True (Inr dev0)] mount)) = []
   \<and> locations (run id
        [WatchPosition 0 (Some \<lparr>coords = Some \<lparr>latitude = 1, longitude = 2\<rparr>\<rparr>),
         LookupDone (length (awaiting (run id [Start True (Inr dev0)] mount)))
           (Resolved NoData)]
        (run id [Start True (Inr dev0)] mount)) = []
   \<and> emitted (run id
        [WatchPosition 0 (Some \<lparr>coords = Some \<lparr>latitude = 1, longitude = 2\<rparr>\<rparr>),
         LookupDone (length (awaiting (run id [Start True (Inr dev0)] mount)))
           (Resolved NoData)]
        (run id [Start True (Inr dev0)] mount)) = []"
proof -
  have h: "map_of (watchers (run id [Start True (Inr dev0)] mount)) 0 = Some dev0"
    and l: "locations (run id [Start True (Inr dev0)] mount) = []"
    and e: "emitted (run id [Start True (Inr dev0)] mount) = []"
    by (simp_all add: step_def startTracking_def mount_def Let_def emitted_def)
  have r: "(Rejected (BadStatus 500) :: string outcome) = Rejected (BadStatus 500)
           \<or> ((Rejected (BadStatus 500) :: string outcome) = Resolved NoData
               \<and> BadStatus 500 = TypeError)"
    by simp
  have r': "(Resolved NoData :: string outcome) = Rejected TypeError
           \<or> ((Resolved NoData :: string outcome) = Resolved NoData \<and> TypeError = TypeError)"
    by simp
  from watch_callback_lookup_fails [OF h r, of id "\<lparr>latitude = 1, longitude = 2\<rparr>"]
       watch_callback_lookup_fails [OF h r', of id "\<lparr>latitude = 1, longitude = 2\<rparr>"] h l e
  show ?thesis
    by (simp add: Let_def)
qed

text \<open>
  C4. \<open>stopTracking\<close> on an idle session (\<open>tracking\<close> is false) writes the line
  \<open>Tracking is not active.\<close> to the console and returns: no event is emitted, no frame
  sent and no request issued, and the subscription handle, the subscriptions, the
  location history and the tracking flag are unchanged.
\<close>

theorem stopTracking_idle_noop:
  assumes "\<not> tracking s"
  shows "stopTracking stringify r dev s = s\<lparr>console := console s @ [TrackingNotActive]\<rparr>
         \<and> emitted (stopTracking stringify r dev s) = emitted s
         \<and> frames (stopTracking stringify r dev s) = frames s
         \<and> watchId (stopTracking stringify r dev s) = watchId s
         \<and> watchers (stopTracking stringify r dev s) = watchers s
         \<and> locations (stopTracking stringify r dev s) = locations s
         \<and> tracking (stopTracking stringify r dev s) = tracking s
         \<and> requests (stopTracking stringify r dev s) = requests s"
  using assms by (simp add: stopTracking_def log_def emitted_def payloads_append)

theorem stopTracking_idle_noop_witness:
  "\<not> tracking mount
   \<and> stopTracking id (Resolved (Data (Some ''{}''))) (Inr dev0) mount
       = mount\<lparr>console := console mount @ [TrackingNotActive]\<rparr>
   \<and> emitted (stopTracking id (Resolved (Data (Some ''{}''))) (Inr dev0) mount) = emitted mount"
proof -
  have h: "\<not> tracking mount" by (simp add: mount_def)
  from stopTracking_idle_noop [OF h, of id "Resolved (Data (Some ''{}''))" "Inr dev0"] h
  show ?thesis by blast
qed

section \<open>Forwarding events\<close>

text \<open>
  C5. \<open>sendLocationEvent\<close> has no statement that throws, and its model returns a
  session in every case. When the socket is missing or not open, the call writes the
  payload and the line \<open>WebSocket is not open.\<close> to the console and changes nothing
  else: no frame is handed to the socket, nothing is kept for later, no request is made.
\<close>

theorem sendLocationEvent_not_open:
  assumes "ws s \<noteq> Some OPEN"
  shows "sendLocationEvent t d l s =
           s\<lparr>console := console s @ [SendingPayload (make_payload t d l), WebSocketNotOpen]\<rparr>
         \<and> frames (sendLocationEvent t d l s) = frames s
         \<and> awaiting (sendLocationEvent t d l s) = awaiting s
         \<and> requests (sendLocationEvent t d l s) = requests s"
  using assms by (simp add: sendLocationEvent_def Let_def log_def)

theorem sendLocationEvent_not_open_witness:
  "ws mount \<noteq> Some OPEN
   \<and> sendLocationEvent ONGOING dev0 (Some (location_object 1 2 (Some ''{}''))) mount =
       mount\<lparr>console := console mount
          @ [SendingPayload (make_payload ONGOING dev0 (Some (location_object 1 2 (Some ''{}'')))),
             WebSocketNotOpen]\<rparr>
   \<and> frames (sendLocationEvent ONGOING dev0 (Some (location_object 1 2 (Some ''{}''))) mount)
       = frames mount"
proof -
  have h: "ws mount \<noteq> Some OPEN" by (simp add: mount_def)
  from sendLocationEvent_not_open [OF h, of ONGOING dev0 "Some (location_object 1 2 (Some ''{}''))"] h
  show ?thesis by blast
qed

text \<open>
  C10. Every call of \<open>sendLocationEvent\<close> emits the payload it builds, and hands it to
  the socket when the socket is open. In that payload the latitude is null when the
  location is null or its latitude is 0, the longitude likewise, and the address is
  \<open>Unknown\<close> when the location's is the empty string. So the START event that the error
  callback of the one-shot read emits, from the location \<open>(0, 0)\<close>, carries latitude
  null and longitude null.
\<close>

theorem sendLocationEvent_falsy_fields:
  "emitted (sendLocationEvent t d loc s) = emitted s @ [make_payload t d loc]
   \<and> (ws s = Some OPEN \<longrightarrow> frames (sendLocationEvent t d loc s) = frames s @ [make_payload t d loc])
   \<and> data_latitude (data (make_payload t d None)) = None
   \<and> data_longitude (data (make_payload t d None)) = None
   \<and> (latitude l = 0 \<longrightarrow> data_latitude (data (make_payload t d (Some l))) = None)
   \<and> (longitude l = 0 \<longrightarrow> data_longitude (data (make_payload t d (Some l))) = None)
   \<and> (reverseData l = Some [] \<longrightarrow> data_reverseData (data (make_payload t d (Some l))) = ''Unknown'')
   \<and> emitted (currentPosition_error d err s)
       = emitted s @ [make_payload START d (Some (location_object 0 0 (Some ''Unknown'')))]
   \<and> data_latitude (data (make_payload START d (Some (location_object 0 0 (Some ''Unknown''))))) = None
   \<and> data_longitude (data (make_payload START d (Some (location_object 0 0 (Some ''Unknown''))))) = None"
  by (simp add: emitted_sendLocationEvent frames_sendLocationEvent currentPosition_error_def
        emitted_log make_payload_def number_or_null_def string_or_Unknown_def location_object_def)

theorem sendLocationEvent_falsy_fields_witness:
  "ws (mount\<lparr>ws := Some OPEN\<rparr>) = Some OPEN
   \<and> latitude (location_object 0 0 (Some [])) = 0
   \<and> longitude (location_object 0 0 (Some [])) = 0
   \<and> reverseData (location_object 0 0 (Some [])) = Some []
   \<and> frames (sendLocationEvent FINISH dev0 (Some (location_object 0 0 (Some [])))
        (mount\<lparr>ws := Some OPEN\<rparr>))
       = [make_payload FINISH dev0 (Some (location_object 0 0 (Some [])))]
   \<and> data_latitude (data (make_payload FINISH dev0 (Some (location_object 0 0 (Some []))))) = None
   \<and> data_longitude (data (make_payload FINISH dev0 (Some (location_object 0 0 (Some []))))) = None
   \<and> data_reverseData (data (make_payload FINISH dev0 (Some (location_object 0 0 (Some [])))))
       = ''Unknown''"
proof -
  have h: "ws (mount\<lparr>ws := Some OPEN\<rparr>) = Some OPEN"
    and f: "frames (mount\<lparr>ws := Some OPEN\<rparr>) = []"
    and l: "latitude (location_object 0 0 (Some [])) = 0"
      "longitude (location_object 0 0 (Some [])) = 0"
      "reverseData (location_object 0 0 (Some [])) = Some []"
    by (simp_all add: mount_def location_object_def)
  from sendLocationEvent_falsy_fields [of FINISH dev0 "Some (location_object 0 0 (Some []))"
      "mount\<lparr>ws := Some OPEN\<rparr>" "location_object 0 0 (Some [])"] h f l
  show ?thesis by simp
qed

text \<open>
  C7, evaluated on the code: the permission is granted, the device data are read, and the
  one-shot position read fails with a timeout. One START event is emitted, with the
  address \<open>Unknown\<close>; its latitude and longitude are null, not 0.
\<close>

theorem failed_read_START_payload:
  "types (emitted (run id
      [Start True (Inr dev0), CurrentPosition (Inl \<lparr>code = 3, message = ''timeout''\<rparr>)] mount))
     = [START]
   \<and> map (data_latitude \<circ> data) (emitted (run id
      [Start True (Inr dev0), CurrentPosition (Inl \<lparr>code = 3, message = ''timeout''\<rparr>)] mount))
     = [None]
   \<and> map (data_longitude \<circ> data) (emitted (run id
      [Start True (Inr dev0), CurrentPosition (Inl \<lparr>code = 3, message = ''timeout''\<rparr>)] mount))
     = [None]
   \<and> map (data_reverseData \<circ> data) (emitted (run id
      [Start True (Inr dev0), CurrentPosition (Inl \<lparr>code = 3, message = ''timeout''\<rparr>)] mount))
     = [''Unknown'']"
  by (simp add: eval_defs)

section \<open>Resolving addresses\<close>



section \<open>Teardown\<close>

text \<open>
  The cleanup of the map variant cancels the subscription whose handle it holds, and
  running it again changes nothing. The cleanup of the event-forwarding variant emits no
  event and sends no frame.
\<close>

lemma map_unmount_cancels:
  "map_watchId m = Some w \<Longrightarrow> w \<notin> set (map_watchers (map_unmount m))"
  by (simp add: map_unmount_def map_clearWatch_def)

lemma map_unmount_twice: "map_unmount (map_unmount m) = map_unmount m"
  by (simp add: map_unmount_def map_clearWatch_def split: option.splits)

lemma unmount_emits_nothing: "emitted (unmount s) = emitted s \<and> frames (unmount s) = frames s"
  by (simp add: unmount_def split: option.splits)

text \<open>
  C8, evaluated on the code of the event-forwarding variant: after \<open>startTracking\<close> the
  component is unmounted. The cleanup only closes the socket: the handle and the
  subscription are still there, and a position delivered afterwards runs the callback.
\<close>

theorem unmount_leaves_subscription:
  "watchId (run id [Start True (Inr dev0), Unmount] mount) = Some 0
   \<and> watchers (run id [Start True (Inr dev0), Unmount] mount) = [(0, dev0)]
   \<and> awaiting (run id [Start True (Inr dev0), Unmount,
         WatchPosition 0 (Some \<lparr>coords = Some \<lparr>latitude = 1, longitude = 2\<rparr>\<rparr>)] mount)
       = [WatchLookup dev0 1 2]"
  by (simp add: eval_defs)


end
